theory Spec2Isabelle
  imports Main "HOL-Library.Word"
begin

section \<open>Data model\<close>

text \<open>
  Go's \<open>[]byte\<close> is a list of 8-bit words, \<open>*big.Int\<close> an unbounded integer (pointers to
  big integers and to keys are taken to be non-nil), Go's \<open>int\<close> an integer that is only
  compared, printed and passed on.
\<close>

type_synonym byte = "8 word"

text \<open>
  The algorithm identifiers of the two switches of \<open>Generate\<close>. Their declarations are
  outside \<open>keygen.go\<close>; Go refuses a switch with a repeated constant, so the seven named
  identifiers are pairwise distinct, and \<open>OtherAlgorithm\<close> stands for every value of the
  field that is none of them.
\<close>

datatype Algorithm =
    RSAMD5 | RSASHA1 | RSASHA256 | RSASHA512 | RSASHA1NSEC3SHA1
  | ECDSAP256SHA256Y | ECDSAP384SHA384Y
  | OtherAlgorithm nat

datatype Curve = P256 | P384

text \<open>\<open>rsa.PrivateKey\<close>: the embedded public key (\<open>N\<close>, \<open>E\<close>), \<open>D\<close> and \<open>Primes\<close>.\<close>

record rsa_PrivateKey =
  pub_N :: int
  pub_E :: int
  priv_D :: int
  Primes :: "int list"

text \<open>\<open>ecdsa.PrivateKey\<close>: the curve, the public point and the private scalar.\<close>

record ecdsa_PrivateKey =
  ec_Curve :: Curve
  ec_X :: int
  ec_Y :: int
  ec_D :: int

text \<open>
  \<open>type PrivateKey interface{}\<close>: a pointer to an RSA key, a pointer to an ECDSA key, or a
  value of any other dynamic type (the nil interface included).
\<close>

datatype PrivateKey = RSAKey rsa_PrivateKey | ECDSAKey ecdsa_PrivateKey | OtherKey

text \<open>
  Values of Go's \<open>error\<close> that \<open>Generate\<close> can return: the package's own \<open>ErrKeySize\<close> and
  \<open>ErrAlg\<close>, and an error of \<open>crypto/rsa\<close> or \<open>crypto/ecdsa\<close>, carried as it came
  (\<open>Underlying\<close> with the error's message).
\<close>

datatype error = ErrKeySize | ErrAlg | Underlying string

text \<open>A run-time panic of \<open>PrivateKeyString\<close>.\<close>

datatype panic = IndexOutOfRange | DivisionByZero | NilDereference

text \<open>
  The record: \<open>keygen.go\<close> reads \<open>Algorithm\<close>; the public-key payload is written by the
  record's encoders. Every other field of the record is in the record's extension.
\<close>

record RR_DNSKEY =
  Algorithm :: Algorithm
  PublicKey :: "byte list"

text \<open>
  The two generators of the standard library, with the random source they read: what
  \<open>rsa.GenerateKey(rand.Reader, bits)\<close> and \<open>ecdsa.GenerateKey(c, rand.Reader)\<close> return in
  one run, an error (\<open>Inl\<close>) or a key (\<open>Inr\<close>).
\<close>

record crypto =
  rsa_GenerateKey :: "int \<Rightarrow> string + rsa_PrivateKey"
  ecdsa_GenerateKey :: "Curve option \<Rightarrow> string + ecdsa_PrivateKey"

section \<open>Big integers as bytes\<close>

text \<open>
  \<open>(*big.Int).Bytes\<close>: the absolute value as a big-endian byte slice, with no leading
  zero byte (so zero is the empty slice).
\<close>

function nat_bytes :: "nat \<Rightarrow> byte list" where
  "nat_bytes n = (if n = 0 then [] else nat_bytes (n div 256) @ [of_nat (n mod 256)])"
  by pat_completeness auto
termination
  by (relation "measure id") auto

definition Bytes :: "int \<Rightarrow> byte list" where
  "Bytes x = nat_bytes (nat \<bar>x\<bar>)"

text \<open>Reading a big-endian byte slice back (\<open>(*big.Int).SetBytes\<close>).\<close>

definition SetBytes :: "byte list \<Rightarrow> int" where
  "SetBytes bs = int (foldl (\<lambda>acc b. acc * 256 + unat b) 0 bs)"

section \<open>The record's public-key encoders\<close>

text \<open>
  Modelled from the spec: \<open>setPublicKeyRSA\<close> is a method of the record defined outside
  \<open>keygen.go\<close>. The spec's data model gives the payload of an RSA key as
  "exponent-length-prefixed exponent+modulus": one byte holding the length of the
  exponent, the exponent's bytes, the modulus' bytes. Only the public-key field is written.
\<close>

definition setPublicKeyRSA :: "'a RR_DNSKEY_scheme \<Rightarrow> int \<Rightarrow> int \<Rightarrow> 'a RR_DNSKEY_scheme" where
  "setPublicKeyRSA r e n =
     r\<lparr>PublicKey := [of_nat (length (Bytes e))] @ Bytes e @ Bytes n\<rparr>"

text \<open>
  Modelled from the spec: the decoder of that payload (the record's RSA public-key
  encoding read back): the first byte is the exponent's length, then the exponent, then
  the modulus. \<open>None\<close> when the payload is shorter than its prefix says.
\<close>

definition publicKeyRSA :: "'a RR_DNSKEY_scheme \<Rightarrow> (int \<times> int) option" where
  "publicKeyRSA r =
     (case PublicKey r of
        [] \<Rightarrow> None
      | l # rest \<Rightarrow>
          if length rest < unat l then None
          else Some (SetBytes (take (unat l) rest), SetBytes (drop (unat l) rest)))"

text \<open>
  Modelled from the spec: \<open>setPublicKeyCurve\<close> is a method of the record defined outside
  \<open>keygen.go\<close>. The spec's data model gives the payload of an ECDSA key as "concatenated X
  and Y curve coordinates". Only the public-key field is written.
\<close>

definition setPublicKeyCurve :: "'a RR_DNSKEY_scheme \<Rightarrow> int \<Rightarrow> int \<Rightarrow> 'a RR_DNSKEY_scheme" where
  "setPublicKeyCurve r x y = r\<lparr>PublicKey := Bytes x @ Bytes y\<rparr>"

section \<open>Generate\<close>

text \<open>
  \<open>func (r *RR_DNSKEY) Generate(bits int) (PrivateKey, error)\<close>. The result is the pair
  Go returns (\<open>None\<close> is \<open>nil\<close>) and the record after the call. Each switch is an
  expression that yields \<open>Some\<close> of what a \<open>return\<close> inside it returns and \<open>None\<close> when
  control falls out of it; after the second switch stands the dummy \<open>return nil, nil\<close>.
\<close>

definition Generate ::
  "crypto \<Rightarrow> 'a RR_DNSKEY_scheme \<Rightarrow> int
     \<Rightarrow> (PrivateKey option \<times> error option) \<times> 'a RR_DNSKEY_scheme" where
  "Generate env r bits =
    (case
       (if Algorithm r \<in> {RSAMD5, RSASHA1, RSASHA256, RSASHA1NSEC3SHA1} then
          (if bits < 512 \<or> bits > 4096 then Some (None, Some ErrKeySize) else None)
        else if Algorithm r = RSASHA512 then
          (if bits < 1024 \<or> bits > 4096 then Some (None, Some ErrKeySize) else None)
        else if Algorithm r = ECDSAP256SHA256Y then
          (if bits \<noteq> 256 then Some (None, Some ErrKeySize) else None)
        else if Algorithm r = ECDSAP384SHA384Y then
          (if bits \<noteq> 384 then Some (None, Some ErrKeySize) else None)
        else None)
     of
       Some ret \<Rightarrow> (ret, r)
     | None \<Rightarrow>
        (case
           (if Algorithm r \<in> {RSAMD5, RSASHA1, RSASHA256, RSASHA512, RSASHA1NSEC3SHA1} then
              (case rsa_GenerateKey env bits of
                 Inl err \<Rightarrow> Some ((None, Some (Underlying err)), r)
               | Inr priv \<Rightarrow>
                   Some ((Some (RSAKey priv), None),
                         setPublicKeyRSA r (pub_E priv) (pub_N priv)))
            else if Algorithm r \<in> {ECDSAP256SHA256Y, ECDSAP384SHA384Y} then
              (let c = (if Algorithm r = ECDSAP256SHA256Y then Some P256
                        else if Algorithm r = ECDSAP384SHA384Y then Some P384
                        else None)
               in case ecdsa_GenerateKey env c of
                    Inl err \<Rightarrow> Some ((None, Some (Underlying err)), r)
                  | Inr priv \<Rightarrow>
                      Some ((Some (ECDSAKey priv), None),
                            setPublicKeyCurve r (ec_X priv) (ec_Y priv)))
            else Some ((None, Some ErrAlg), r))
         of
           Some out \<Rightarrow> out
         | None \<Rightarrow> ((None, None), r)))"

section \<open>Big-integer arithmetic of the standard library\<close>

text \<open>
  \<open>(*big.Int).Mod\<close>, as \<open>math/big\<close> documents it: the Euclidean modulus for a divisor
  other than zero (the result is in \<open>[0, |y|)\<close>), a division-by-zero run-time panic for
  the divisor zero.
\<close>

definition big_Mod :: "int \<Rightarrow> int \<Rightarrow> panic + int" where
  "big_Mod x y = (if y = 0 then Inl DivisionByZero else Inr (x mod \<bar>y\<bar>))"

text \<open>The extended Euclidean algorithm: \<open>(d, u, v)\<close> with \<open>d = a * u + b * v\<close>.\<close>

function egcd :: "int \<Rightarrow> int \<Rightarrow> int \<times> int \<times> int" where
  "egcd a b =
     (if b = 0 then (a, 1, 0)
      else (case egcd b (a mod b) of (d, u, v) \<Rightarrow> (d, v, u - (a div b) * v)))"
  by pat_completeness auto
termination
  by (relation "measure (\<lambda>(a, b). nat \<bar>b\<bar>)") (auto simp: abs_mod_less)

text \<open>
  \<open>(*big.Int).ModInverse\<close> for a modulus other than zero, as \<open>math/big\<close> documents it:
  the inverse of \<open>g\<close> in the ring of integers modulo \<open>|n|\<close>, in \<open>[0, |n|)\<close>; \<open>nil\<close>
  (\<open>None\<close>) when \<open>g\<close> and \<open>n\<close> are not relatively prime.
\<close>

definition ModInverse :: "int \<Rightarrow> int \<Rightarrow> int option" where
  "ModInverse g n =
     (case egcd (g mod \<bar>n\<bar>) \<bar>n\<bar> of
        (d, u, v) \<Rightarrow> if d \<noteq> 1 then None else Some (u mod \<bar>n\<bar>))"

text \<open>
  \<open>(*big.Int).Exp\<close> of \<open>math/big\<close>: \<open>x ** y mod |m|\<close>; for the modulus zero
  \<open>x ** y\<close>, and 1 when \<open>y \<le> 0\<close>. For \<open>y < 0\<close> and a modulus other than zero it takes
  \<open>ModInverse\<close> of \<open>x\<close>, returns \<open>nil\<close> (\<open>None\<close>) when there is none, and raises the
  inverse to \<open>|y|\<close> modulo \<open>|m|\<close>; the sign of the result is taken from the base, so
  for a negative \<open>x\<close> and an odd \<open>y\<close> a value \<open>z\<close> other than zero comes out as
  \<open>|m| - z\<close>. (For \<open>y \<ge> 0\<close> the same rule is the Euclidean modulus of \<open>x ** y\<close>.) For
  a base that is not negative this is the negative-exponent semantics the spec's
  section 4.2 names.
\<close>

definition big_Exp :: "int \<Rightarrow> int \<Rightarrow> int \<Rightarrow> int option" where
  "big_Exp x y m =
     (if y < 0 then
        (if m = 0 then Some 1
         else (case ModInverse x m of
                 None \<Rightarrow> None
               | Some inverse_x \<Rightarrow>
                   (let z = inverse_x ^ nat (- y) mod \<bar>m\<bar>
                    in if z \<noteq> 0 \<and> x < 0 \<and> odd y then Some (\<bar>m\<bar> - z) else Some z)))
      else if m = 0 then Some (x ^ nat y)
      else Some (x ^ nat y mod \<bar>m\<bar>))"

section \<open>Text\<close>

text \<open>\<open>strconv.Itoa\<close>: the decimal digits, after a minus sign for a negative number.\<close>

function nat_digits :: "nat \<Rightarrow> string" where
  "nat_digits n =
     (if n < 10 then [''0123456789'' ! n]
      else nat_digits (n div 10) @ [''0123456789'' ! (n mod 10)])"
  by pat_completeness auto
termination
  by (relation "measure id") auto

definition Itoa :: "int \<Rightarrow> string" where
  "Itoa i = (if i < 0 then CHR ''-'' # nat_digits (nat (- i)) else nat_digits (nat i))"

text \<open>
  Modelled from the spec: \<open>unpackBase64\<close> is a helper of the package defined outside
  \<open>keygen.go\<close>. The spec's section 6 gives each value as "standard base64" of the bytes:
  the alphabet \<open>A-Z a-z 0-9 + /\<close>, three bytes to four characters, padded with \<open>=\<close>.
\<close>

definition b64_char :: "nat \<Rightarrow> char" where
  "b64_char i = ''ABCDEFGHIJKLMNOPQRSTUVWXYZabcdefghijklmnopqrstuvwxyz0123456789+/'' ! i"

fun unpackBase64 :: "byte list \<Rightarrow> string" where
  "unpackBase64 (a # b # c # rest) =
     (let n = unat a * 65536 + unat b * 256 + unat c
      in [b64_char (n div 262144), b64_char (n div 4096 mod 64),
          b64_char (n div 64 mod 64), b64_char (n mod 64)] @ unpackBase64 rest)"
| "unpackBase64 [a, b] =
     (let n = unat a * 65536 + unat b * 256
      in [b64_char (n div 262144), b64_char (n div 4096 mod 64),
          b64_char (n div 64 mod 64), CHR ''=''])"
| "unpackBase64 [a] =
     (let n = unat a * 65536
      in [b64_char (n div 262144), b64_char (n div 4096 mod 64), CHR ''='', CHR ''=''])"
| "unpackBase64 [] = []"

text \<open>The lines of a text: the pieces that end at a line feed, and a last unfinished one.\<close>

fun lines_from :: "string \<Rightarrow> string \<Rightarrow> string list" where
  "lines_from cur [] = (if cur = [] then [] else [cur])"
| "lines_from cur (c # cs) =
     (if c = CHR 0x0A then cur # lines_from [] cs else lines_from (cur @ [c]) cs)"

definition text_lines :: "string \<Rightarrow> string list" where
  "text_lines s = lines_from [] s"

section \<open>PrivateKeyString\<close>

text \<open>
  \<open>func (r *RR_DNSKEY) PrivateKeyString(p PrivateKey) (s string)\<close>. The numeric value of
  an algorithm identifier (\<open>int(r.Algorithm)\<close>) and the table \<open>Alg_str\<close> are declared
  outside \<open>keygen.go\<close> and are parameters; a key missing from a Go map reads as the empty
  string. The result is the string returned (\<open>Inr\<close>) or the run-time panic that ends the
  call (\<open>Inl\<close>): an index into \<open>Primes\<close> out of range, \<open>Mod\<close> by zero, \<open>Bytes\<close> of the
  \<open>nil\<close> that \<open>Exp\<close> returned. The named result \<open>s\<close> starts as the empty string, and the
  type switch has no default.
\<close>

definition PrivateKeyString ::
  "(Algorithm \<Rightarrow> int) \<Rightarrow> (Algorithm \<rightharpoonup> string) \<Rightarrow> 'a RR_DNSKEY_scheme \<Rightarrow> PrivateKey
     \<Rightarrow> panic + string" where
  "PrivateKeyString alg_number Alg_str r p =
    (case p of
       RSAKey t \<Rightarrow>
        (let algorithm = Itoa (alg_number (Algorithm r)) @ '' ('' @
                         (case Alg_str (Algorithm r) of None \<Rightarrow> [] | Some name \<Rightarrow> name) @ '')'';
             modulus = unpackBase64 (Bytes (pub_N t));
             e = pub_E t;
             publicExponent = unpackBase64 (Bytes e);
             privateExponent = unpackBase64 (Bytes (priv_D t))
         in if length (Primes t) \<le> 0 then Inl IndexOutOfRange
            else let prime1 = unpackBase64 (Bytes (Primes t ! 0))
            in if length (Primes t) \<le> 1 then Inl IndexOutOfRange
            else let prime2 = unpackBase64 (Bytes (Primes t ! 1));
                     one = 1;
                     minusone = - 1;
                     p_1 = Primes t ! 0 - one;
                     q_1 = Primes t ! 1 - one
            in (case big_Mod (priv_D t) p_1 of
                  Inl pn \<Rightarrow> Inl pn
                | Inr exp1 \<Rightarrow>
               (case big_Mod (priv_D t) q_1 of
                  Inl pn \<Rightarrow> Inl pn
                | Inr exp2 \<Rightarrow>
               (let coeff = big_Exp (Primes t ! 1) minusone (Primes t ! 0);
                    exponent1 = unpackBase64 (Bytes exp1);
                    exponent2 = unpackBase64 (Bytes exp2)
                in (case coeff of
                      None \<Rightarrow> Inl NilDereference
                    | Some cf \<Rightarrow>
                   (let coefficient = unpackBase64 (Bytes cf)
                    in Inr (''Private-key-format: v1.3'' @ [CHR 0x0A] @
                            ''Algorithm: '' @ algorithm @ [CHR 0x0A] @
                            ''Modules: '' @ modulus @ [CHR 0x0A] @
                            ''PublicExponent: '' @ publicExponent @ [CHR 0x0A] @
                            ''PrivateExponent: '' @ privateExponent @ [CHR 0x0A] @
                            ''Prime1: '' @ prime1 @ [CHR 0x0A] @
                            ''Prime2: '' @ prime2 @ [CHR 0x0A] @
                            ''Exponent1: '' @ exponent1 @ [CHR 0x0A] @
                            ''Exponent2: '' @ exponent2 @ [CHR 0x0A] @
                            ''Coefficient: '' @ coefficient @ [CHR 0x0A])))))))
     | ECDSAKey t \<Rightarrow> Inr ''TODO''
     | OtherKey \<Rightarrow> Inr [])"

section \<open>What the generators of the standard library promise\<close>

definition is_prime :: "int \<Rightarrow> bool" where
  "is_prime p = (1 < p \<and> (\<forall>d \<in> {2..<p}. \<not> d dvd p))"

text \<open>
  A key that \<open>rsa.GenerateKey\<close> returns: two distinct primes, their product as the
  modulus, a positive public exponent that fits Go's \<open>int\<close>, a positive private exponent.
\<close>

definition rsa_key_generated :: "rsa_PrivateKey \<Rightarrow> bool" where
  "rsa_key_generated k =
     (length (Primes k) = 2 \<and> is_prime (Primes k ! 0) \<and> is_prime (Primes k ! 1) \<and>
      Primes k ! 0 \<noteq> Primes k ! 1 \<and> pub_N k = Primes k ! 0 * Primes k ! 1 \<and>
      0 < pub_E k \<and> pub_E k < 2 ^ 63 \<and> 0 < priv_D k)"

definition rsa_GenerateKey_contract :: "crypto \<Rightarrow> bool" where
  "rsa_GenerateKey_contract env =
     (\<forall>bits k. rsa_GenerateKey env bits = Inr k \<longrightarrow> rsa_key_generated k)"

text \<open>
  The RSA keys that \<open>PrivateKeyString\<close> exports without a panic: two primes are there,
  neither is 1, and the second has an inverse modulo the first (or the first is zero,
  where \<open>Exp\<close> gives 1). Every key with two distinct primes is one of them.
\<close>

definition rsa_key_exportable :: "rsa_PrivateKey \<Rightarrow> bool" where
  "rsa_key_exportable k =
     (2 \<le> length (Primes k) \<and> Primes k ! 0 \<noteq> 1 \<and> Primes k ! 1 \<noteq> 1 \<and>
      (Primes k ! 0 = 0 \<or> coprime (Primes k ! 1) (Primes k ! 0)))"

text \<open>
  The spec's words for a rendered value: the big-endian byte representation of minimal
  length, that is, read back it gives the number and it has no leading zero byte.
\<close>

definition big_endian_minimal :: "byte list \<Rightarrow> int \<Rightarrow> bool" where
  "big_endian_minimal bs v = (SetBytes bs = v \<and> (bs = [] \<or> hd bs \<noteq> 0))"

section \<open>Sample inputs\<close>

definition sample_rsa_key :: rsa_PrivateKey where
  "sample_rsa_key = \<lparr>pub_N = 143, pub_E = 7, priv_D = 103, Primes = [11, 13]\<rparr>"

definition sample_ecdsa_key :: ecdsa_PrivateKey where
  "sample_ecdsa_key = \<lparr>ec_Curve = P256, ec_X = 258, ec_Y = 3, ec_D = 5\<rparr>"

definition generators_succeed :: crypto where
  "generators_succeed =
     \<lparr>rsa_GenerateKey = (\<lambda>bits. Inr sample_rsa_key),
      ecdsa_GenerateKey = (\<lambda>c. Inr sample_ecdsa_key)\<rparr>"

definition generators_fail :: crypto where
  "generators_fail =
     \<lparr>rsa_GenerateKey = (\<lambda>bits. Inl ''unexpected EOF''),
      ecdsa_GenerateKey = (\<lambda>c. Inl ''unexpected EOF'')\<rparr>"

definition sample_record :: "Algorithm \<Rightarrow> RR_DNSKEY" where
  "sample_record a = \<lparr>Algorithm = a, PublicKey = [1, 2, 3]\<rparr>"

definition sample_alg_number :: "Algorithm \<Rightarrow> int" where
  "sample_alg_number a = 8"

definition sample_Alg_str :: "Algorithm \<rightharpoonup> string" where
  "sample_Alg_str = [RSASHA256 \<mapsto> ''RSASHA256'']"

section \<open>Modular inverses\<close>

declare egcd.simps [simp del]
declare nat_bytes.simps [simp del]
declare nat_digits.simps [simp del]

lemma egcd_bezout: "egcd a b = (d, u, v) \<Longrightarrow> a * u + b * v = d"
proof (induction a b arbitrary: d u v rule: egcd.induct)
  case (1 a b)
  show ?case
  proof (cases "b = 0")
    case True
    with "1.prems" show ?thesis by (simp add: egcd.simps)
  next
    case False
    obtain d' u' v' where rec: "egcd b (a mod b) = (d', u', v')"
      by (cases "egcd b (a mod b)") auto
    from "1.IH" [OF False rec] have ih: "b * u' + (a mod b) * v' = d'" .
    from "1.prems" False rec have eqs: "d = d'" "u = v'" "v = u' - (a div b) * v'"
      by (auto simp: egcd.simps [of a b])
    have "a * v' + b * (u' - (a div b) * v') = b * u' + (a - b * (a div b)) * v'"
      by (simp add: algebra_simps)
    also have "a - b * (a div b) = a mod b"
      by (simp add: minus_mult_div_eq_mod)
    finally have "a * v' + b * (u' - (a div b) * v') = b * u' + (a mod b) * v'" .
    with ih eqs show ?thesis by simp
  qed
qed

lemma egcd_gcd: "0 \<le> a \<Longrightarrow> 0 \<le> b \<Longrightarrow> fst (egcd a b) = gcd a b"
proof (induction a b rule: egcd.induct)
  case (1 a b)
  show ?case
  proof (cases "b = 0")
    case True
    with "1.prems" show ?thesis by (simp add: egcd.simps)
  next
    case False
    with "1.prems" have "0 \<le> a mod b" by simp
    with "1.IH" [OF False] "1.prems" have "fst (egcd b (a mod b)) = gcd b (a mod b)" by simp
    moreover have "fst (egcd a b) = fst (egcd b (a mod b))"
      using False by (simp add: egcd.simps [of a b] split: prod.splits)
    moreover have "gcd b (a mod b) = gcd a b"
      by (rule gcd_red_int [symmetric])
    ultimately show ?thesis by simp
  qed
qed


lemma ModInverse_coprime:
  assumes n: "n \<noteq> 0" and cop: "coprime g n"
  shows "\<exists>c. ModInverse g n = Some c \<and> 0 \<le> c \<and> c < \<bar>n\<bar> \<and> (c * g) mod \<bar>n\<bar> = 1 mod \<bar>n\<bar>"
proof -
  let ?m = "\<bar>n\<bar>"
  have m: "0 < ?m" using n by simp
  obtain d u v where e: "egcd (g mod ?m) ?m = (d, u, v)"
    by (cases "egcd (g mod ?m) ?m") auto
  have "d = gcd (g mod ?m) ?m"
    using egcd_gcd [of "g mod ?m" ?m] m e by simp
  also have "\<dots> = gcd ?m (g mod ?m)" by (rule gcd.commute)
  also have "\<dots> = gcd g ?m" by (rule gcd_red_int [symmetric])
  also have "\<dots> = gcd g n" by simp
  also have "\<dots> = 1" using cop by simp
  finally have d: "d = 1" .
  from egcd_bezout [OF e] d have bez: "(g mod ?m) * u + ?m * v = 1" by simp
  have "((g mod ?m) * u) mod ?m = (g * u) mod ?m"
    by (rule mod_mult_left_eq)
  then have "(u * g) mod ?m = ((g mod ?m) * u) mod ?m"
    by (simp only: mult.commute [of u g])
  also have "\<dots> = ((g mod ?m) * u + ?m * v) mod ?m" by simp
  also have "\<dots> = 1 mod ?m" using bez by simp
  finally have inv: "(u * g) mod ?m = 1 mod ?m" .
  have "((u mod ?m) * g) mod ?m = (u * g) mod ?m"
    by (simp add: mod_mult_left_eq)
  with inv have "((u mod ?m) * g) mod ?m = 1 mod ?m" by simp
  moreover have "ModInverse g n = Some (u mod ?m)"
    using e d by (simp add: ModInverse_def)
  moreover have "0 \<le> u mod ?m" "u mod ?m < ?m" using m by simp_all
  ultimately show ?thesis by blast
qed

lemma ModInverse_not_coprime:
  assumes n: "n \<noteq> 0" and cop: "\<not> coprime g n"
  shows "ModInverse g n = None"
proof -
  let ?m = "\<bar>n\<bar>"
  have m: "0 < ?m" using n by simp
  obtain d u v where e: "egcd (g mod ?m) ?m = (d, u, v)"
    by (cases "egcd (g mod ?m) ?m") auto
  have "d = gcd (g mod ?m) ?m"
    using egcd_gcd [of "g mod ?m" ?m] m e by simp
  also have "\<dots> = gcd ?m (g mod ?m)" by (rule gcd.commute)
  also have "\<dots> = gcd g ?m" by (rule gcd_red_int [symmetric])
  also have "\<dots> = gcd g n" by simp
  finally have "d \<noteq> 1" using cop by (simp add: coprime_iff_gcd_eq_1)
  with e show ?thesis by (simp add: ModInverse_def)
qed

lemma big_Exp_minus_one:
  assumes p: "1 < p" and q: "0 \<le> q" and cop: "coprime q p"
  shows "\<exists>c. big_Exp q (- 1) p = Some c \<and> 0 \<le> c \<and> c < p \<and> (c * q) mod p = 1"
proof -
  from ModInverse_coprime [of p q] p cop
  obtain c where c: "ModInverse q p = Some c" "0 \<le> c" "c < p" "(c * q) mod p = 1"
    by auto
  then have "big_Exp q (- 1) p = Some c" using p q by (simp add: big_Exp_def)
  with c show ?thesis by blast
qed

lemma big_Exp_negative_base:
  "big_Exp (- 13) (- 1) 11 = Some 6"
  "big_Exp (- 2) (- 1) 3 = Some 2"
  "big_Exp 13 (- 1) 11 = Some 6"
  "big_Exp 3 (- 1) 3 = None"
  by (simp_all add: big_Exp_def ModInverse_def egcd.simps)

lemma is_prime_coprime:
  assumes p: "is_prime p" and q: "is_prime q" and ne: "p \<noteq> q"
  shows "coprime q p"
proof -
  let ?g = "gcd q p"
  have gp: "?g dvd p" and gq: "?g dvd q" by simp_all
  have p1: "1 < p" and q1: "1 < q" using p q by (simp_all add: is_prime_def)
  have g0: "0 \<le> ?g" by simp
  have gle: "?g \<le> p" using gp p1 by (simp add: zdvd_imp_le)
  have gne: "?g \<noteq> 0" using p1 by simp
  have "\<not> 2 \<le> ?g"
  proof
    assume g2: "2 \<le> ?g"
    have "\<not> ?g < p" using p g2 gp by (auto simp: is_prime_def)
    then have "?g = p" using gle by simp
    then have pq: "p dvd q" using gq by simp
    then have "p \<le> q" using q1 by (simp add: zdvd_imp_le)
    moreover have "\<not> p < q" using q p1 pq by (auto simp: is_prime_def)
    ultimately show False using ne by simp
  qed
  then have "?g = 1" using g0 gne by linarith
  then show ?thesis by (simp add: coprime_iff_gcd_eq_1)
qed

lemma big_Exp_minus_one_iff:
  "big_Exp q (- 1) p \<noteq> None \<longleftrightarrow> p = 0 \<or> coprime q p"
proof (cases "p = 0")
  case True
  then show ?thesis by (simp add: big_Exp_def)
next
  case False
  show ?thesis
  proof (cases "coprime q p")
    case True
    from ModInverse_coprime [OF False True] show ?thesis
      using False True by (auto simp: big_Exp_def Let_def)
  next
    case nc: False
    from ModInverse_not_coprime [OF False nc] show ?thesis
      using False nc by (simp add: big_Exp_def)
  qed
qed

lemma exportable_coefficient:
  assumes "rsa_key_exportable k"
  shows "\<exists>cf. big_Exp (Primes k ! 1) (- 1) (Primes k ! 0) = Some cf"
proof -
  from assms have "big_Exp (Primes k ! 1) (- 1) (Primes k ! 0) \<noteq> None"
    unfolding big_Exp_minus_one_iff by (simp add: rsa_key_exportable_def)
  then show ?thesis by auto
qed

lemma two_primes_exportable:
  assumes len: "2 \<le> length (Primes k)"
    and p: "is_prime (Primes k ! 0)" and q: "is_prime (Primes k ! 1)"
    and ne: "Primes k ! 0 \<noteq> Primes k ! 1"
  shows "rsa_key_exportable k"
proof -
  have "1 < Primes k ! 0" and "1 < Primes k ! 1"
    using p q by (simp_all add: is_prime_def)
  with len is_prime_coprime [OF p q ne] show ?thesis
    by (simp add: rsa_key_exportable_def)
qed

lemma generated_exportable:
  assumes "rsa_key_generated k"
  shows "rsa_key_exportable k"
  using assms by (intro two_primes_exportable) (simp_all add: rsa_key_generated_def)

section \<open>Lines, digits and bytes\<close>

lemma lines_from_append:
  "CHR 0x0A \<notin> set l \<Longrightarrow> lines_from cur (l @ CHR 0x0A # rest) = (cur @ l) # lines_from [] rest"
  by (induction l arbitrary: cur) auto

lemma text_lines_concat:
  "\<forall>l \<in> set ls. CHR 0x0A \<notin> set l \<Longrightarrow>
     text_lines (concat (map (\<lambda>l. l @ [CHR 0x0A]) ls)) = ls"
  unfolding text_lines_def
  by (induction ls) (simp_all add: lines_from_append)

lemma b64_char_no_newline: "i < 64 \<Longrightarrow> CHR 0x0A \<noteq> b64_char i"
proof -
  assume "i < 64"
  then have "b64_char i \<in> set ''ABCDEFGHIJKLMNOPQRSTUVWXYZabcdefghijklmnopqrstuvwxyz0123456789+/''"
    unfolding b64_char_def by (intro nth_mem) simp
  then show ?thesis by auto
qed

lemma unat_byte: "unat (a :: byte) < 256"
  using unsigned_less [of a, where 'a = nat] by simp

lemma unpackBase64_no_newline: "CHR 0x0A \<notin> set (unpackBase64 bs)"
proof (induction bs rule: unpackBase64.induct)
  case (1 a b c rest)
  have "unat a * 65536 + unat b * 256 + unat c < 16777216"
    using unat_byte [of a] unat_byte [of b] unat_byte [of c] by linarith
  then have "(unat a * 65536 + unat b * 256 + unat c) div 262144 < 64" by simp
  with 1 show ?case by (simp add: b64_char_no_newline Let_def)
next
  case (2 a b)
  have "unat a * 65536 + unat b * 256 < 16777216"
    using unat_byte [of a] unat_byte [of b] by linarith
  then have "(unat a * 65536 + unat b * 256) div 262144 < 64" by simp
  then show ?case by (simp add: b64_char_no_newline Let_def)
next
  case (3 a)
  have "unat a * 65536 < 16777216" using unat_byte [of a] by linarith
  then have "(unat a * 65536) div 262144 < 64" by simp
  then show ?case by (simp add: b64_char_no_newline Let_def)
next
  case 4
  show ?case by simp
qed

lemma digit_no_newline: "d < 10 \<Longrightarrow> CHR 0x0A \<noteq> ''0123456789'' ! d"
proof -
  assume "d < 10"
  then have "''0123456789'' ! d \<in> set ''0123456789''" by (intro nth_mem) simp
  then show ?thesis by auto
qed

lemma nat_digits_no_newline: "CHR 0x0A \<notin> set (nat_digits n)"
proof (induction n rule: nat_digits.induct)
  case (1 n)
  show ?case
  proof (cases "n < 10")
    case True
    then show ?thesis by (simp add: nat_digits.simps [of n] digit_no_newline)
  next
    case False
    with 1 show ?thesis by (simp add: nat_digits.simps [of n] digit_no_newline)
  qed
qed

lemma Itoa_no_newline: "CHR 0x0A \<notin> set (Itoa i)"
  by (simp add: Itoa_def nat_digits_no_newline)


lemma nat_bytes_0: "nat_bytes 0 = []"
  by (simp add: nat_bytes.simps [of 0])

lemma foldl_nat_bytes: "foldl (\<lambda>acc b. acc * 256 + unat b) 0 (nat_bytes n) = n"
proof (induction n rule: nat_bytes.induct)
  case (1 n)
  show ?case
  proof (cases "n = 0")
    case True
    then show ?thesis by (simp add: nat_bytes_0)
  next
    case False
    with 1 have "foldl (\<lambda>acc b. acc * 256 + unat b) 0 (nat_bytes (n div 256)) = n div 256"
      by simp
    with False show ?thesis
      by (simp add: nat_bytes.simps [of n] unat_of_nat)
  qed
qed

lemma SetBytes_Bytes: "SetBytes (Bytes x) = \<bar>x\<bar>"
  by (simp add: SetBytes_def Bytes_def foldl_nat_bytes)

lemma nat_bytes_eq_Nil: "nat_bytes n = [] \<longleftrightarrow> n = 0"
  by (simp add: nat_bytes.simps [of n])

lemma hd_nat_bytes: "n \<noteq> 0 \<Longrightarrow> hd (nat_bytes n) \<noteq> 0"
proof (induction n rule: nat_bytes.induct)
  case (1 n)
  show ?case
  proof (cases "n div 256 = 0")
    case True
    with "1.prems" have small: "n < 256" "n \<noteq> 0" by auto
    then have "unat (of_nat n :: byte) = n" by (simp add: unat_of_nat)
    with small have "(of_nat n :: byte) \<noteq> 0" by auto
    moreover have "nat_bytes n = [of_nat n]"
      using small True by (simp add: nat_bytes.simps [of n] nat_bytes.simps [of 0])
    ultimately show ?thesis by simp
  next
    case False
    with "1.prems" "1.IH" have "hd (nat_bytes (n div 256)) \<noteq> 0" by simp
    moreover have "nat_bytes (n div 256) \<noteq> []" using False by (simp add: nat_bytes_eq_Nil)
    ultimately show ?thesis using "1.prems" by (simp add: nat_bytes.simps [of n])
  qed
qed

lemma Bytes_big_endian_minimal: "big_endian_minimal (Bytes x) \<bar>x\<bar>"
proof (cases "x = 0")
  case True
  then show ?thesis
    by (simp add: big_endian_minimal_def SetBytes_Bytes) (simp add: Bytes_def nat_bytes_eq_Nil)
next
  case False
  then have "nat \<bar>x\<bar> \<noteq> 0" by simp
  from hd_nat_bytes [OF this] show ?thesis
    by (simp add: big_endian_minimal_def SetBytes_Bytes) (simp add: Bytes_def)
qed

lemma length_nat_bytes: "n < 256 ^ k \<Longrightarrow> length (nat_bytes n) \<le> k"
proof (induction n arbitrary: k rule: nat_bytes.induct)
  case (1 n)
  show ?case
  proof (cases "n = 0")
    case True
    then show ?thesis by (simp add: nat_bytes_0)
  next
    case False
    with "1.prems" obtain j where k: "k = Suc j" by (cases k) auto
    with "1.prems" have "n div 256 < 256 ^ j"
      by (simp add: less_mult_imp_div_less mult.commute)
    from "1.IH" [OF False this] k False show ?thesis
      by (simp add: nat_bytes.simps [of n])
  qed
qed

lemma publicKeyRSA_setPublicKeyRSA:
  assumes e: "0 \<le> e" "e < 2 ^ 63" and n: "0 \<le> n"
  shows "publicKeyRSA (setPublicKeyRSA r e n) = Some (e, n)"
proof -
  have "nat \<bar>e\<bar> < 256 ^ 8" using e by simp
  from length_nat_bytes [OF this] have len: "length (Bytes e) \<le> 8" by (simp add: Bytes_def)
  then have "unat (of_nat (length (Bytes e)) :: byte) = length (Bytes e)"
    by (simp add: unat_of_nat)
  moreover have "SetBytes (Bytes e) = e" "SetBytes (Bytes n) = n"
    using e n by (simp_all add: SetBytes_Bytes)
  ultimately show ?thesis
    by (simp add: publicKeyRSA_def setPublicKeyRSA_def)
qed

lemma PrivateKeyString_exportable:
  assumes "rsa_key_exportable t"
    and "big_Exp (Primes t ! 1) (- 1) (Primes t ! 0) = Some cf"
  shows "PrivateKeyString alg_number Alg_str r (RSAKey t) =
    Inr (concat (map (\<lambda>l. l @ [CHR 0x0A])
      [''Private-key-format: v1.3'',
       ''Algorithm: '' @ Itoa (alg_number (Algorithm r)) @ '' ('' @
          (case Alg_str (Algorithm r) of None \<Rightarrow> [] | Some name \<Rightarrow> name) @ '')'',
       ''Modules: '' @ unpackBase64 (Bytes (pub_N t)),
       ''PublicExponent: '' @ unpackBase64 (Bytes (pub_E t)),
       ''PrivateExponent: '' @ unpackBase64 (Bytes (priv_D t)),
       ''Prime1: '' @ unpackBase64 (Bytes (Primes t ! 0)),
       ''Prime2: '' @ unpackBase64 (Bytes (Primes t ! 1)),
       ''Exponent1: '' @ unpackBase64 (Bytes (priv_D t mod \<bar>Primes t ! 0 - 1\<bar>)),
       ''Exponent2: '' @ unpackBase64 (Bytes (priv_D t mod \<bar>Primes t ! 1 - 1\<bar>)),
       ''Coefficient: '' @ unpackBase64 (Bytes cf)]))"
proof -
  from assms(1) have "Primes t \<noteq> []" "\<not> length (Primes t) \<le> 1"
    "Primes t ! 0 - 1 \<noteq> 0" "Primes t ! 1 - 1 \<noteq> 0"
    by (auto simp: rsa_key_exportable_def)
  with assms(2) show ?thesis
    by (simp add: PrivateKeyString_def big_Mod_def Let_def)
qed

lemma PrivateKeyString_not_exportable:
  assumes "\<not> rsa_key_exportable t"
  shows "\<exists>pn. PrivateKeyString alg_number Alg_str r (RSAKey t) = Inl pn"
proof -
  from assms have "length (Primes t) \<le> 1 \<or> Primes t ! 0 = 1 \<or> Primes t ! 1 = 1
      \<or> big_Exp (Primes t ! 1) (- 1) (Primes t ! 0) = None"
    using big_Exp_minus_one_iff [of "Primes t ! 1" "Primes t ! 0"]
    by (auto simp: rsa_key_exportable_def)
  then show ?thesis
    by (auto simp: PrivateKeyString_def big_Mod_def Let_def split: sum.splits option.splits)
qed

lemma unpackBase64_rfc4648_vectors:
  "unpackBase64 [] = []"
  "unpackBase64 [102] = ''Zg==''"
  "unpackBase64 [102, 111] = ''Zm8=''"
  "unpackBase64 [102, 111, 111] = ''Zm9v''"
  "unpackBase64 [102, 111, 111, 98] = ''Zm9vYg==''"
  "unpackBase64 [102, 111, 111, 98, 97] = ''Zm9vYmE=''"
  "unpackBase64 [102, 111, 111, 98, 97, 114] = ''Zm9vYmFy''"
  by (simp_all add: b64_char_def)

section \<open>The sample inputs evaluated\<close>

lemma sample_primes: "is_prime 11" "is_prime 13"
  by code_simp+

lemma sample_contract: "rsa_GenerateKey_contract generators_succeed"
  using sample_primes
  by (simp add: rsa_GenerateKey_contract_def generators_succeed_def rsa_key_generated_def
      sample_rsa_key_def)

lemma sample_generate:
  "Generate generators_succeed (sample_record RSASHA256) 1024 =
     ((Some (RSAKey sample_rsa_key), None),
      snd (Generate generators_succeed (sample_record RSASHA256) 1024))"
  by (simp add: Generate_def generators_succeed_def sample_record_def)

lemma sample_coefficient: "big_Exp 13 (- 1) 11 = Some 6"
  by (simp add: big_Exp_def ModInverse_def egcd.simps)

lemma sample_exportable: "rsa_key_exportable sample_rsa_key"
  using sample_primes by (intro two_primes_exportable) (simp_all add: sample_rsa_key_def)

lemmas evaluate =
  Bytes_def nat_bytes.simps Itoa_def nat_digits.simps b64_char_def
  sample_rsa_key_def sample_record_def sample_alg_number_def sample_Alg_str_def

text \<open>
  A key whose second prime is negative: the coefficient printed is \<open>|p| - z\<close> for the
  inverse \<open>z\<close>, here 2 (\<open>Ag==\<close>), as \<open>Exp\<close> returns it.
\<close>

lemma PrivateKeyString_negative_prime:
  "PrivateKeyString sample_alg_number sample_Alg_str (sample_record RSASHA256)
     (RSAKey \<lparr>pub_N = - 6, pub_E = 7, priv_D = 1, Primes = [3, - 2]\<rparr>) =
   Inr (concat (map (\<lambda>l. l @ [CHR 0x0A])
     [''Private-key-format: v1.3'', ''Algorithm: 8 (RSASHA256)'', ''Modules: Bg=='',
      ''PublicExponent: Bw=='', ''PrivateExponent: AQ=='', ''Prime1: Aw=='',
      ''Prime2: Ag=='', ''Exponent1: AQ=='', ''Exponent2: AQ=='', ''Coefficient: Ag=='']))"
  by (simp add: PrivateKeyString_def big_Mod_def big_Exp_def ModInverse_def egcd.simps
      evaluate)

section \<open>Generate: key sizes, errors and the record\<close>

lemma Generate_rsa_success:
  assumes "Generate env r bits = ((Some (RSAKey t), None), r')"
  shows "rsa_GenerateKey env bits = Inr t \<and> r' = setPublicKeyRSA r (pub_E t) (pub_N t)"
  using assms by (auto simp: Generate_def split: if_splits sum.splits)

text \<open>
  C3. For an algorithm of the RSA family, \<open>Generate\<close> returns \<open>ErrKeySize\<close> exactly when
  \<open>bits\<close> is below the minimum (512, and 1024 for RSA-SHA512) or above 4096. It then
  returns no key and leaves the record as it was, whatever the generators would do, so
  nothing was generated. For every other \<open>bits\<close>, the two bounds included, the outcome is
  that of \<open>rsa.GenerateKey\<close>.
\<close>

theorem Generate_rsa_key_size:
  assumes "Algorithm r \<in> {RSAMD5, RSASHA1, RSASHA256, RSASHA1NSEC3SHA1, RSASHA512}"
  shows "(snd (fst (Generate env r bits)) = Some ErrKeySize
            \<longleftrightarrow> bits < (if Algorithm r = RSASHA512 then 1024 else 512) \<or> 4096 < bits)
       \<and> (if bits < (if Algorithm r = RSASHA512 then 1024 else 512) \<or> 4096 < bits
          then \<forall>env'. Generate env' r bits = ((None, Some ErrKeySize), r)
          else Generate env r bits =
                 (case rsa_GenerateKey env bits of
                    Inl err \<Rightarrow> ((None, Some (Underlying err)), r)
                  | Inr priv \<Rightarrow> ((Some (RSAKey priv), None),
                                setPublicKeyRSA r (pub_E priv) (pub_N priv))))"
  using assms by (auto simp: Generate_def split: sum.splits)

theorem Generate_rsa_key_size_witness:
  "Generate generators_succeed (sample_record RSASHA256) 511
     = ((None, Some ErrKeySize), sample_record RSASHA256)
   \<and> Generate generators_succeed (sample_record RSASHA256) 4097
     = ((None, Some ErrKeySize), sample_record RSASHA256)
   \<and> Generate generators_succeed (sample_record RSASHA512) 1023
     = ((None, Some ErrKeySize), sample_record RSASHA512)
   \<and> fst (Generate generators_succeed (sample_record RSASHA256) 512)
     = (Some (RSAKey sample_rsa_key), None)
   \<and> fst (Generate generators_succeed (sample_record RSASHA512) 1024)
     = (Some (RSAKey sample_rsa_key), None)
   \<and> fst (Generate generators_succeed (sample_record RSASHA512) 4096)
     = (Some (RSAKey sample_rsa_key), None)"
  using Generate_rsa_key_size [of "sample_record RSASHA256" generators_succeed 511]
    Generate_rsa_key_size [of "sample_record RSASHA256" generators_succeed 4097]
    Generate_rsa_key_size [of "sample_record RSASHA512" generators_succeed 1023]
    Generate_rsa_key_size [of "sample_record RSASHA256" generators_succeed 512]
    Generate_rsa_key_size [of "sample_record RSASHA512" generators_succeed 1024]
    Generate_rsa_key_size [of "sample_record RSASHA512" generators_succeed 4096]
  by (simp add: sample_record_def generators_succeed_def)

text \<open>
  C4. For an ECDSA algorithm, every \<open>bits\<close> other than the algorithm's size (256 for
  ECDSA-P256-SHA256, 384 for ECDSA-P384-SHA384) gives \<open>ErrKeySize\<close>, no key and the
  record as it was; so a key is returned only for the exact size. With the exact size
  the outcome is that of \<open>ecdsa.GenerateKey\<close> on the curve of the algorithm.
\<close>

theorem Generate_ecdsa_key_size:
  assumes "Algorithm r \<in> {ECDSAP256SHA256Y, ECDSAP384SHA384Y}"
  shows "Generate env r bits =
           (if bits \<noteq> (if Algorithm r = ECDSAP256SHA256Y then 256 else 384)
            then ((None, Some ErrKeySize), r)
            else (case ecdsa_GenerateKey env
                         (Some (if Algorithm r = ECDSAP256SHA256Y then P256 else P384)) of
                    Inl err \<Rightarrow> ((None, Some (Underlying err)), r)
                  | Inr priv \<Rightarrow> ((Some (ECDSAKey priv), None),
                                setPublicKeyCurve r (ec_X priv) (ec_Y priv))))
       \<and> (fst (fst (Generate env r bits)) = None
            \<or> bits = (if Algorithm r = ECDSAP256SHA256Y then 256 else 384))"
  using assms by (auto simp: Generate_def split: sum.splits)

theorem Generate_ecdsa_key_size_witness:
  "Generate generators_succeed (sample_record ECDSAP256SHA256Y) 255
     = ((None, Some ErrKeySize), sample_record ECDSAP256SHA256Y)
   \<and> Generate generators_succeed (sample_record ECDSAP256SHA256Y) 257
     = ((None, Some ErrKeySize), sample_record ECDSAP256SHA256Y)
   \<and> Generate generators_succeed (sample_record ECDSAP384SHA384Y) 256
     = ((None, Some ErrKeySize), sample_record ECDSAP384SHA384Y)
   \<and> fst (Generate generators_succeed (sample_record ECDSAP256SHA256Y) 256)
     = (Some (ECDSAKey sample_ecdsa_key), None)
   \<and> fst (Generate generators_succeed (sample_record ECDSAP384SHA384Y) 384)
     = (Some (ECDSAKey sample_ecdsa_key), None)"
  using Generate_ecdsa_key_size [of "sample_record ECDSAP256SHA256Y" generators_succeed 255]
    Generate_ecdsa_key_size [of "sample_record ECDSAP256SHA256Y" generators_succeed 257]
    Generate_ecdsa_key_size [of "sample_record ECDSAP384SHA384Y" generators_succeed 256]
    Generate_ecdsa_key_size [of "sample_record ECDSAP256SHA256Y" generators_succeed 256]
    Generate_ecdsa_key_size [of "sample_record ECDSAP384SHA384Y" generators_succeed 384]
  by (simp add: sample_record_def generators_succeed_def)

text \<open>
  C5. With an algorithm that is none of the seven of the switches, \<open>Generate\<close> returns
  \<open>ErrAlg\<close> (and no key, and the record as it was) for every \<open>bits\<close>: no size is
  checked, so \<open>ErrKeySize\<close> cannot come out.
\<close>

theorem Generate_unsupported_algorithm:
  assumes "Algorithm r = OtherAlgorithm n"
  shows "Generate env r bits = ((None, Some ErrAlg), r)"
  using assms by (simp add: Generate_def)

theorem Generate_unsupported_algorithm_witness:
  "Generate generators_succeed (sample_record (OtherAlgorithm 3)) 0
     = ((None, Some ErrAlg), sample_record (OtherAlgorithm 3))
   \<and> Generate generators_succeed (sample_record (OtherAlgorithm 3)) 1024
     = ((None, Some ErrAlg), sample_record (OtherAlgorithm 3))"
  using Generate_unsupported_algorithm [of "sample_record (OtherAlgorithm 3)" 3 generators_succeed 0]
    Generate_unsupported_algorithm [of "sample_record (OtherAlgorithm 3)" 3 generators_succeed 1024]
  by (simp add: sample_record_def)

text \<open>
  C7, as the code has it. When the generator that the call reaches fails, \<open>Generate\<close>
  returns that error itself, unchanged, with no key, and leaves the record (so also its
  public-key field) as it was.
\<close>

theorem Generate_generator_failure:
  assumes "(Algorithm r \<in> {RSAMD5, RSASHA1, RSASHA256, RSASHA1NSEC3SHA1, RSASHA512}
              \<and> (if Algorithm r = RSASHA512 then 1024 else 512) \<le> bits \<and> bits \<le> 4096
              \<and> rsa_GenerateKey env bits = Inl err)
         \<or> (Algorithm r = ECDSAP256SHA256Y \<and> bits = 256
              \<and> ecdsa_GenerateKey env (Some P256) = Inl err)
         \<or> (Algorithm r = ECDSAP384SHA384Y \<and> bits = 384
              \<and> ecdsa_GenerateKey env (Some P384) = Inl err)"
  shows "Generate env r bits = ((None, Some (Underlying err)), r)"
  using assms by (auto simp: Generate_def)

theorem Generate_generator_failure_witness:
  "Generate generators_fail (sample_record RSASHA512) 2048
     = ((None, Some (Underlying ''unexpected EOF'')), sample_record RSASHA512)
   \<and> Generate generators_fail (sample_record ECDSAP384SHA384Y) 384
     = ((None, Some (Underlying ''unexpected EOF'')), sample_record ECDSAP384SHA384Y)"
  using Generate_generator_failure [of "sample_record RSASHA512" 2048 generators_fail
      "''unexpected EOF''"]
    Generate_generator_failure [of "sample_record ECDSAP384SHA384Y" 384 generators_fail
      "''unexpected EOF''"]
  by (simp add: sample_record_def generators_fail_def)

text \<open>
  C7 as the spec states it fails: what comes back when \<open>rsa.GenerateKey\<close> fails is the
  raw error of \<open>rsa.GenerateKey\<close>, not a distinguished error of the package.
\<close>

theorem Generate_returns_underlying_error:
  "rsa_GenerateKey generators_fail 1024 = Inl ''unexpected EOF''
   \<and> snd (fst (Generate generators_fail (sample_record RSASHA256) 1024))
       = Some (Underlying ''unexpected EOF'')"
  by (simp add: Generate_def generators_fail_def sample_record_def)

text \<open>
  C8. A call that returns an error leaves the record as it was. After any call the
  record differs from the one before at most in its public-key field; the algorithm in
  particular is the same. (What a successful call writes is the work of the record's
  encoders, which write the public-key field only.)
\<close>

theorem Generate_frame:
  "(snd (fst (Generate env r bits)) \<noteq> None \<longrightarrow> snd (Generate env r bits) = r)
   \<and> snd (Generate env r bits) = r\<lparr>PublicKey := PublicKey (snd (Generate env r bits))\<rparr>
   \<and> Algorithm (snd (Generate env r bits)) = Algorithm r"
  by (auto simp: Generate_def setPublicKeyRSA_def setPublicKeyCurve_def split: sum.splits)

theorem Generate_frame_witness:
  "snd (fst (Generate generators_fail (sample_record RSASHA256) 1024)) \<noteq> None
   \<and> snd (Generate generators_fail (sample_record RSASHA256) 1024) = sample_record RSASHA256
   \<and> snd (Generate generators_succeed (sample_record RSASHA256) 1024)
       = (sample_record RSASHA256)\<lparr>PublicKey := [1, 7, 143]\<rparr>"
  using Generate_frame [of generators_fail "sample_record RSASHA256" 1024]
    Generate_frame [of generators_succeed "sample_record RSASHA256" 1024]
  by (simp add: Generate_def generators_fail_def generators_succeed_def sample_record_def
      setPublicKeyRSA_def evaluate)

text \<open>
  C10. \<open>Generate\<close> returns either a key and no error, or no key and an error. The pair
  \<open>nil, nil\<close> of the dummy \<open>return\<close> after the second switch never comes out: every path
  returns from inside one of the two switches.
\<close>

theorem Generate_key_or_error:
  "((\<exists>k. fst (Generate env r bits) = (Some k, None))
      \<or> (\<exists>e. fst (Generate env r bits) = (None, Some e)))
   \<and> fst (Generate env r bits) \<noteq> (None, None)"
  by (auto simp: Generate_def split: sum.splits)

theorem Generate_key_or_error_witness:
  "fst (Generate generators_succeed (sample_record RSASHA256) 1024)
     = (Some (RSAKey sample_rsa_key), None)
   \<and> fst (Generate generators_succeed (sample_record RSASHA256) 100)
     = (None, Some ErrKeySize)"
  using Generate_key_or_error [of generators_succeed "sample_record RSASHA256" 1024]
  by (simp add: Generate_def generators_succeed_def sample_record_def)

text \<open>
  C9. After a successful call with an algorithm of the RSA family (the call returned an
  RSA key), reading the record's public-key payload back gives the public exponent and
  the modulus of the key returned.
\<close>

theorem Generate_rsa_public_key_roundtrip:
  assumes contract: "rsa_GenerateKey_contract env"
    and gen: "Generate env r bits = ((Some (RSAKey t), None), r')"
  shows "publicKeyRSA r' = Some (pub_E t, pub_N t)"
proof -
  from Generate_rsa_success [OF gen]
  have k: "rsa_GenerateKey env bits = Inr t" and r': "r' = setPublicKeyRSA r (pub_E t) (pub_N t)"
    by simp_all
  from k contract have g: "rsa_key_generated t" by (simp add: rsa_GenerateKey_contract_def)
  then have e: "0 \<le> pub_E t" "pub_E t < 2 ^ 63"
    and n: "pub_N t = Primes t ! 0 * Primes t ! 1"
    and p: "is_prime (Primes t ! 0)" "is_prime (Primes t ! 1)"
    by (simp_all add: rsa_key_generated_def)
  from p have "0 < Primes t ! 0" "0 < Primes t ! 1" by (simp_all add: is_prime_def)
  with n have "0 \<le> pub_N t" by simp
  with e r' show ?thesis by (simp add: publicKeyRSA_setPublicKeyRSA)
qed

theorem Generate_rsa_public_key_roundtrip_witness:
  "publicKeyRSA (snd (Generate generators_succeed (sample_record RSASHA256) 1024)) = Some (7, 143)
   \<and> PublicKey (snd (Generate generators_succeed (sample_record RSASHA256) 1024)) = [1, 7, 143]"
  using Generate_rsa_public_key_roundtrip [OF sample_contract sample_generate]
  by (simp add: Generate_def generators_succeed_def setPublicKeyRSA_def evaluate)

section \<open>PrivateKeyString: the exported text\<close>

text \<open>
  C1. For a key that \<open>Generate\<close> returned from \<open>rsa.GenerateKey\<close>, the text of
  \<open>PrivateKeyString\<close> ends with the three lines \<open>Exponent1\<close>, \<open>Exponent2\<close> and
  \<open>Coefficient\<close>, whose values are the bytes of \<open>d mod (p - 1)\<close>, of \<open>d mod (q - 1)\<close> and
  of a number \<open>cf\<close> in \<open>[0, p)\<close> with \<open>cf * q mod p = 1\<close>, where \<open>p\<close> and \<open>q\<close> are the first
  and the second prime; the bytes read back give these numbers.
\<close>

theorem PrivateKeyString_crt_parameters:
  assumes contract: "rsa_GenerateKey_contract env"
    and gen: "Generate env r bits = ((Some (RSAKey t), None), r')"
  shows "\<exists>pre e1 e2 cf.
      PrivateKeyString alg_number Alg_str r' (RSAKey t) =
        Inr (pre @ ''Exponent1: '' @ unpackBase64 (Bytes e1) @ [CHR 0x0A] @
                   ''Exponent2: '' @ unpackBase64 (Bytes e2) @ [CHR 0x0A] @
                   ''Coefficient: '' @ unpackBase64 (Bytes cf) @ [CHR 0x0A])
      \<and> e1 = priv_D t mod (Primes t ! 0 - 1)
      \<and> e2 = priv_D t mod (Primes t ! 1 - 1)
      \<and> 0 \<le> cf \<and> cf < Primes t ! 0
      \<and> (cf * Primes t ! 1) mod (Primes t ! 0) = 1
      \<and> SetBytes (Bytes e1) = e1 \<and> SetBytes (Bytes e2) = e2 \<and> SetBytes (Bytes cf) = cf"
proof -
  from Generate_rsa_success [OF gen] have "rsa_GenerateKey env bits = Inr t" by simp
  with contract have g: "rsa_key_generated t" by (simp add: rsa_GenerateKey_contract_def)
  then have p: "is_prime (Primes t ! 0)" and q: "is_prime (Primes t ! 1)"
    and ne: "Primes t ! 0 \<noteq> Primes t ! 1"
    by (simp_all add: rsa_key_generated_def)
  have p1: "1 < Primes t ! 0" and q1: "1 < Primes t ! 1"
    using p q by (simp_all add: is_prime_def)
  from q1 have q0: "0 \<le> Primes t ! 1" by simp
  from big_Exp_minus_one [OF p1 q0 is_prime_coprime [OF p q ne]]
  obtain cf where cf: "big_Exp (Primes t ! 1) (- 1) (Primes t ! 0) = Some cf"
    and c0: "0 \<le> cf" and cp: "cf < Primes t ! 0"
    and inv: "(cf * Primes t ! 1) mod (Primes t ! 0) = 1"
    by blast
  let ?e1 = "priv_D t mod (Primes t ! 0 - 1)"
  let ?e2 = "priv_D t mod (Primes t ! 1 - 1)"
  let ?pre = "concat (map (\<lambda>l. l @ [CHR 0x0A])
      [''Private-key-format: v1.3'',
       ''Algorithm: '' @ Itoa (alg_number (Algorithm r')) @ '' ('' @
          (case Alg_str (Algorithm r') of None \<Rightarrow> [] | Some name \<Rightarrow> name) @ '')'',
       ''Modules: '' @ unpackBase64 (Bytes (pub_N t)),
       ''PublicExponent: '' @ unpackBase64 (Bytes (pub_E t)),
       ''PrivateExponent: '' @ unpackBase64 (Bytes (priv_D t)),
       ''Prime1: '' @ unpackBase64 (Bytes (Primes t ! 0)),
       ''Prime2: '' @ unpackBase64 (Bytes (Primes t ! 1))])"
  have s: "PrivateKeyString alg_number Alg_str r' (RSAKey t) =
        Inr (?pre @ ''Exponent1: '' @ unpackBase64 (Bytes ?e1) @ [CHR 0x0A] @
                   ''Exponent2: '' @ unpackBase64 (Bytes ?e2) @ [CHR 0x0A] @
                   ''Coefficient: '' @ unpackBase64 (Bytes cf) @ [CHR 0x0A])"
    using p1 q1
    by (simp add: PrivateKeyString_exportable [OF generated_exportable [OF g] cf] abs_if)
  have "0 \<le> ?e1" "0 \<le> ?e2" using p1 q1 by simp_all
  then have reads: "SetBytes (Bytes ?e1) = ?e1" "SetBytes (Bytes ?e2) = ?e2"
    "SetBytes (Bytes cf) = cf"
    using c0 by (simp_all add: SetBytes_Bytes)
  show ?thesis
    by (rule exI [of _ ?pre], rule exI [of _ ?e1], rule exI [of _ ?e2], rule exI [of _ cf])
      (intro conjI s refl c0 cp inv reads)
qed

theorem PrivateKeyString_crt_parameters_witness:
  "rsa_GenerateKey_contract generators_succeed
   \<and> (\<exists>pre cf.
        PrivateKeyString sample_alg_number sample_Alg_str
            (snd (Generate generators_succeed (sample_record RSASHA256) 1024))
            (RSAKey sample_rsa_key) =
          Inr (pre @ ''Exponent1: Aw=='' @ [CHR 0x0A] @ ''Exponent2: Bw=='' @ [CHR 0x0A] @
                     ''Coefficient: '' @ unpackBase64 (Bytes cf) @ [CHR 0x0A])
        \<and> 0 \<le> cf \<and> cf < 11 \<and> (cf * 13) mod 11 = 1 \<and> SetBytes (Bytes cf) = cf)"
proof -
  from PrivateKeyString_crt_parameters [OF sample_contract sample_generate,
      of sample_alg_number sample_Alg_str]
  obtain pre cf where
    "PrivateKeyString sample_alg_number sample_Alg_str
            (snd (Generate generators_succeed (sample_record RSASHA256) 1024))
            (RSAKey sample_rsa_key) =
          Inr (pre @ ''Exponent1: '' @ unpackBase64 (Bytes (priv_D sample_rsa_key mod (Primes sample_rsa_key ! 0 - 1))) @ [CHR 0x0A] @
                     ''Exponent2: '' @ unpackBase64 (Bytes (priv_D sample_rsa_key mod (Primes sample_rsa_key ! 1 - 1))) @ [CHR 0x0A] @
                     ''Coefficient: '' @ unpackBase64 (Bytes cf) @ [CHR 0x0A])"
    "0 \<le> cf" "cf < Primes sample_rsa_key ! 0"
    "(cf * Primes sample_rsa_key ! 1) mod (Primes sample_rsa_key ! 0) = 1"
    "SetBytes (Bytes cf) = cf"
    by blast
  moreover have "unpackBase64 (Bytes (priv_D sample_rsa_key mod (Primes sample_rsa_key ! 0 - 1))) = ''Aw==''"
    "unpackBase64 (Bytes (priv_D sample_rsa_key mod (Primes sample_rsa_key ! 1 - 1))) = ''Bw==''"
    "Primes sample_rsa_key ! 0 = 11" "Primes sample_rsa_key ! 1 = 13"
    by (simp_all add: evaluate)
  ultimately show ?thesis using sample_contract by auto
qed

text \<open>
  C2. For an RSA key that is exported (two primes, neither of them 1, the second
  invertible modulo the first: every key with two distinct primes, and exactly the keys
  for which a text is returned) and a mnemonic without a line feed, the text returned has
  exactly ten lines, each ended by a line feed: \<open>Private-key-format: v1.3\<close>, then the nine
  lines \<open>Algorithm\<close>, \<open>Modules\<close>, \<open>PublicExponent\<close>, \<open>PrivateExponent\<close>, \<open>Prime1\<close>,
  \<open>Prime2\<close>, \<open>Exponent1\<close>, \<open>Exponent2\<close>, \<open>Coefficient\<close> in this order. Each number is
  rendered as the base64 of \<open>Bytes\<close> of it, which is its big-endian representation of
  minimal length.
\<close>

theorem PrivateKeyString_rsa_format:
  assumes exp: "rsa_key_exportable t"
    and name: "CHR 0x0A \<notin> set (case Alg_str (Algorithm r) of None \<Rightarrow> [] | Some name \<Rightarrow> name)"
  shows "\<exists>s cf. PrivateKeyString alg_number Alg_str r (RSAKey t) = Inr s
      \<and> big_Exp (Primes t ! 1) (- 1) (Primes t ! 0) = Some cf
      \<and> text_lines s =
         [''Private-key-format: v1.3'',
          ''Algorithm: '' @ Itoa (alg_number (Algorithm r)) @ '' ('' @
             (case Alg_str (Algorithm r) of None \<Rightarrow> [] | Some name \<Rightarrow> name) @ '')'',
          ''Modules: '' @ unpackBase64 (Bytes (pub_N t)),
          ''PublicExponent: '' @ unpackBase64 (Bytes (pub_E t)),
          ''PrivateExponent: '' @ unpackBase64 (Bytes (priv_D t)),
          ''Prime1: '' @ unpackBase64 (Bytes (Primes t ! 0)),
          ''Prime2: '' @ unpackBase64 (Bytes (Primes t ! 1)),
          ''Exponent1: '' @ unpackBase64 (Bytes (priv_D t mod \<bar>Primes t ! 0 - 1\<bar>)),
          ''Exponent2: '' @ unpackBase64 (Bytes (priv_D t mod \<bar>Primes t ! 1 - 1\<bar>)),
          ''Coefficient: '' @ unpackBase64 (Bytes cf)]
      \<and> s = concat (map (\<lambda>l. l @ [CHR 0x0A]) (text_lines s))
      \<and> list_all (\<lambda>v. big_endian_minimal (Bytes v) \<bar>v\<bar>)
           [pub_N t, pub_E t, priv_D t, Primes t ! 0, Primes t ! 1,
            priv_D t mod \<bar>Primes t ! 0 - 1\<bar>, priv_D t mod \<bar>Primes t ! 1 - 1\<bar>, cf]"
proof -
  from exportable_coefficient [OF exp]
  obtain cf where cf: "big_Exp (Primes t ! 1) (- 1) (Primes t ! 0) = Some cf" ..
  let ?ls = "[''Private-key-format: v1.3'',
          ''Algorithm: '' @ Itoa (alg_number (Algorithm r)) @ '' ('' @
             (case Alg_str (Algorithm r) of None \<Rightarrow> [] | Some name \<Rightarrow> name) @ '')'',
          ''Modules: '' @ unpackBase64 (Bytes (pub_N t)),
          ''PublicExponent: '' @ unpackBase64 (Bytes (pub_E t)),
          ''PrivateExponent: '' @ unpackBase64 (Bytes (priv_D t)),
          ''Prime1: '' @ unpackBase64 (Bytes (Primes t ! 0)),
          ''Prime2: '' @ unpackBase64 (Bytes (Primes t ! 1)),
          ''Exponent1: '' @ unpackBase64 (Bytes (priv_D t mod \<bar>Primes t ! 0 - 1\<bar>)),
          ''Exponent2: '' @ unpackBase64 (Bytes (priv_D t mod \<bar>Primes t ! 1 - 1\<bar>)),
          ''Coefficient: '' @ unpackBase64 (Bytes cf)]"
  let ?s = "concat (map (\<lambda>l. l @ [CHR 0x0A]) ?ls)"
  have s: "PrivateKeyString alg_number Alg_str r (RSAKey t) = Inr ?s"
    by (rule PrivateKeyString_exportable [OF exp cf])
  have "\<forall>l \<in> set ?ls. CHR 0x0A \<notin> set l"
    using name by (simp add: unpackBase64_no_newline Itoa_no_newline)
  then have ls: "text_lines ?s = ?ls" by (rule text_lines_concat)
  have rebuilt: "?s = concat (map (\<lambda>l. l @ [CHR 0x0A]) (text_lines ?s))"
    by (simp only: ls)
  have mini: "list_all (\<lambda>v. big_endian_minimal (Bytes v) \<bar>v\<bar>)
           [pub_N t, pub_E t, priv_D t, Primes t ! 0, Primes t ! 1,
            priv_D t mod \<bar>Primes t ! 0 - 1\<bar>, priv_D t mod \<bar>Primes t ! 1 - 1\<bar>, cf]"
    by (simp add: Bytes_big_endian_minimal)
  show ?thesis
    by (rule exI [of _ ?s], rule exI [of _ cf]) (intro conjI s cf ls rebuilt mini)
qed

theorem PrivateKeyString_rsa_format_witness:
  "rsa_key_exportable sample_rsa_key
   \<and> text_lines (projr (PrivateKeyString sample_alg_number sample_Alg_str
        (sample_record RSASHA256) (RSAKey sample_rsa_key))) =
      [''Private-key-format: v1.3'', ''Algorithm: 8 (RSASHA256)'', ''Modules: jw=='',
       ''PublicExponent: Bw=='', ''PrivateExponent: Zw=='', ''Prime1: Cw=='',
       ''Prime2: DQ=='', ''Exponent1: Aw=='', ''Exponent2: Bw=='', ''Coefficient: Bg=='']"
proof -
  have name: "CHR 0x0A \<notin> set (case sample_Alg_str (Algorithm (sample_record RSASHA256)) of
                            None \<Rightarrow> [] | Some name \<Rightarrow> name)"
    by (simp add: sample_Alg_str_def sample_record_def)
  from PrivateKeyString_rsa_format [where t = sample_rsa_key and Alg_str = sample_Alg_str
      and r = "sample_record RSASHA256" and alg_number = sample_alg_number,
      OF sample_exportable name]
  obtain s cf where s: "PrivateKeyString sample_alg_number sample_Alg_str
        (sample_record RSASHA256) (RSAKey sample_rsa_key) = Inr s"
    and cf: "big_Exp (Primes sample_rsa_key ! 1) (- 1) (Primes sample_rsa_key ! 0) = Some cf"
    and ls: "text_lines s =
         [''Private-key-format: v1.3'',
          ''Algorithm: '' @ Itoa (sample_alg_number (Algorithm (sample_record RSASHA256))) @ '' ('' @
             (case sample_Alg_str (Algorithm (sample_record RSASHA256)) of None \<Rightarrow> [] | Some name \<Rightarrow> name) @ '')'',
          ''Modules: '' @ unpackBase64 (Bytes (pub_N sample_rsa_key)),
          ''PublicExponent: '' @ unpackBase64 (Bytes (pub_E sample_rsa_key)),
          ''PrivateExponent: '' @ unpackBase64 (Bytes (priv_D sample_rsa_key)),
          ''Prime1: '' @ unpackBase64 (Bytes (Primes sample_rsa_key ! 0)),
          ''Prime2: '' @ unpackBase64 (Bytes (Primes sample_rsa_key ! 1)),
          ''Exponent1: '' @ unpackBase64 (Bytes (priv_D sample_rsa_key mod \<bar>Primes sample_rsa_key ! 0 - 1\<bar>)),
          ''Exponent2: '' @ unpackBase64 (Bytes (priv_D sample_rsa_key mod \<bar>Primes sample_rsa_key ! 1 - 1\<bar>)),
          ''Coefficient: '' @ unpackBase64 (Bytes cf)]"
    by blast
  from cf have "cf = 6" by (simp add: sample_rsa_key_def sample_coefficient)
  with ls have "text_lines s =
      [''Private-key-format: v1.3'', ''Algorithm: 8 (RSASHA256)'', ''Modules: jw=='',
       ''PublicExponent: Bw=='', ''PrivateExponent: Zw=='', ''Prime1: Cw=='',
       ''Prime2: DQ=='', ''Exponent1: Aw=='', ''Exponent2: Bw=='', ''Coefficient: Bg=='']"
    by (simp add: evaluate)
  with s sample_exportable show ?thesis by simp
qed

text \<open>
  C6, as the code has it. For an RSA key \<open>PrivateKeyString\<close> never returns the empty
  string: it returns a text exactly for the keys that are exported (every key with two
  distinct primes is), and ends in a run-time panic for the others. For an ECDSA key it
  returns the placeholder \<open>TODO\<close>. For a key that is neither, it returns the empty string
  and signals nothing.
\<close>

theorem PrivateKeyString_nonempty_amended:
  "PrivateKeyString alg_number Alg_str r (RSAKey t) \<noteq> Inr []
   \<and> ((\<exists>s. PrivateKeyString alg_number Alg_str r (RSAKey t) = Inr s) \<longleftrightarrow> rsa_key_exportable t)
   \<and> PrivateKeyString alg_number Alg_str r (ECDSAKey k) = Inr ''TODO''
   \<and> PrivateKeyString alg_number Alg_str r OtherKey = Inr []"
proof -
  have "PrivateKeyString alg_number Alg_str r (RSAKey t) \<noteq> Inr []"
    by (simp add: PrivateKeyString_def Let_def split: sum.splits option.splits)
  moreover have "(\<exists>s. PrivateKeyString alg_number Alg_str r (RSAKey t) = Inr s)
      \<longleftrightarrow> rsa_key_exportable t"
  proof
    assume returned: "\<exists>s. PrivateKeyString alg_number Alg_str r (RSAKey t) = Inr s"
    show "rsa_key_exportable t"
    proof (rule ccontr)
      assume "\<not> rsa_key_exportable t"
      from PrivateKeyString_not_exportable [OF this]
      obtain pn where "PrivateKeyString alg_number Alg_str r (RSAKey t) = Inl pn" ..
      with returned show False by auto
    qed
  next
    assume exp: "rsa_key_exportable t"
    from exportable_coefficient [OF exp]
    obtain cf where "big_Exp (Primes t ! 1) (- 1) (Primes t ! 0) = Some cf" ..
    from PrivateKeyString_exportable [OF exp this]
    show "\<exists>s. PrivateKeyString alg_number Alg_str r (RSAKey t) = Inr s" by blast
  qed
  moreover have "PrivateKeyString alg_number Alg_str r (ECDSAKey k) = Inr ''TODO''"
    "PrivateKeyString alg_number Alg_str r OtherKey = Inr []"
    by (simp_all add: PrivateKeyString_def)
  ultimately show ?thesis by blast
qed

theorem PrivateKeyString_nonempty_amended_witness:
  "rsa_key_exportable sample_rsa_key
   \<and> (\<exists>s. PrivateKeyString sample_alg_number sample_Alg_str (sample_record RSASHA256)
            (RSAKey sample_rsa_key) = Inr s \<and> s \<noteq> [])
   \<and> PrivateKeyString sample_alg_number sample_Alg_str (sample_record RSASHA256)
        (ECDSAKey sample_ecdsa_key) = Inr ''TODO''"
  using PrivateKeyString_nonempty_amended [of sample_alg_number sample_Alg_str
      "sample_record RSASHA256" sample_rsa_key sample_ecdsa_key] sample_exportable
  by auto

text \<open>
  C6 as the spec states it fails: a private key that is neither an RSA nor an ECDSA key
  gets the empty string as the result.
\<close>

theorem PrivateKeyString_other_key_empty:
  "PrivateKeyString sample_alg_number sample_Alg_str (sample_record RSASHA256) OtherKey = Inr []"
  by (simp add: PrivateKeyString_def)

end
